theory Spec2Isabelle
  imports Complex_Main
begin

section \<open>The text classification app: model registry and prediction dispatch\<close>

text \<open>
  The development embeds the logic core of \<^verbatim>\<open>streamlit_ml_app/app.py\<close>:
  \<^verbatim>\<open>load_models\<close>, \<^verbatim>\<open>make_prediction\<close>, \<^verbatim>\<open>get_available_models\<close>, the loop of the
  batch processing page and the agreement analysis of the model comparison page.

  Python exceptions are values of type \<open>exn\<close>; only subclasses of \<^verbatim>\<open>Exception\<close> are
  modelled. Each constructor carries the text that \<^verbatim>\<open>str(e)\<close> yields.
  What the program shows to the user through \<^verbatim>\<open>st.error\<close>, \<^verbatim>\<open>st.warning\<close>,
  \<^verbatim>\<open>st.info\<close>, \<^verbatim>\<open>st.success\<close> and \<^verbatim>\<open>st.write\<close>, and every call it makes to
  \<^verbatim>\<open>joblib.load\<close> or to a method of a loaded model, is recorded in an event list, in
  program order. Layout widgets (columns, tables, charts, metrics, the progress bar, the
  download button) produce no event.
\<close>

subsection \<open>Exceptions, events and sequencing\<close>

datatype exn =
    FileNotFoundError string
  | KeyError string
  | IndexError string
  | ValueError string
  | OtherException string

fun str_exn :: "exn \<Rightarrow> string" where
  "str_exn (FileNotFoundError s) = s"
| "str_exn (KeyError s) = s"
| "str_exn (IndexError s) = s"
| "str_exn (ValueError s) = s"
| "str_exn (OtherException s) = s"

fun is_FileNotFoundError :: "exn \<Rightarrow> bool" where
  "is_FileNotFoundError (FileNotFoundError s) = True"
| "is_FileNotFoundError (KeyError s) = False"
| "is_FileNotFoundError (IndexError s) = False"
| "is_FileNotFoundError (ValueError s) = False"
| "is_FileNotFoundError (OtherException s) = False"

datatype artifact = Pipeline | Vectorizer | SVMClassifier | DecisionTreeClassifier | AdaBoostClassifier

datatype meth = Predict | PredictProba | Transform

datatype event =
    StError string
  | StWarning string
  | StInfo string
  | StSuccess string
  | StWrite string
  | JoblibLoad string
  | ModelCall artifact meth

text \<open>
  A statement sequence that may raise: the outcome (\<open>Inl\<close> the exception raised,
  \<open>Inr\<close> the value) together with the events that happened up to that point.
\<close>

type_synonym 'a io = "(exn + 'a) \<times> event list"

definition ret :: "'a \<Rightarrow> 'a io" where
  "ret a = (Inr a, [])"

definition raise_exn :: "exn \<Rightarrow> 'a io" where
  "raise_exn e = (Inl e, [])"

definition emit :: "event \<Rightarrow> unit io" where
  "emit ev = (Inr (), [ev])"

text \<open>A call to an external object: the call is recorded, its outcome is the one given.\<close>

definition call :: "event \<Rightarrow> exn + 'a \<Rightarrow> 'a io" where
  "call ev outcome = (outcome, [ev])"

definition seq :: "'a io \<Rightarrow> ('a \<Rightarrow> 'b io) \<Rightarrow> 'b io" where
  "seq m f =
     (case m of
        (Inl e, evs) \<Rightarrow> (Inl e, evs)
      | (Inr a, evs) \<Rightarrow> (case f a of (r, evs') \<Rightarrow> (r, evs @ evs')))"

subsection \<open>Python helpers\<close>

text \<open>
  \<^verbatim>\<open>xs[i]\<close> on a Python list: a negative index counts from the end, an index out of
  range raises \<^verbatim>\<open>IndexError\<close>.
\<close>

definition py_getitem :: "'a list \<Rightarrow> int \<Rightarrow> 'a io" where
  "py_getitem xs i =
     (if 0 \<le> i \<and> i < int (length xs) then ret (xs ! nat i)
      else if i < 0 \<and> - int (length xs) \<le> i then ret (xs ! nat (int (length xs) + i))
      else raise_exn (IndexError ''list index out of range''))"

text \<open>\<^verbatim>\<open>max(xs)\<close>: raises \<^verbatim>\<open>ValueError\<close> on an empty sequence.\<close>

definition py_max :: "real list \<Rightarrow> real io" where
  "py_max xs =
     (case xs of
        [] \<Rightarrow> raise_exn (ValueError ''max() arg is an empty sequence'')
      | x # rest \<Rightarrow> ret (fold max rest x))"

text \<open>
  \<^verbatim>\<open>d[key]\<close> on the registry dict: \<^verbatim>\<open>KeyError\<close> when the key was never stored.
  \<^verbatim>\<open>str\<close> of a \<^verbatim>\<open>KeyError\<close> is the \<^verbatim>\<open>repr\<close> of the key.
\<close>

definition repr_str :: "string \<Rightarrow> string" where
  "repr_str s = [CHR 0x27] @ s @ [CHR 0x27]"

definition dict_getitem :: "'a option \<Rightarrow> string \<Rightarrow> 'a io" where
  "dict_getitem v key =
     (case v of None \<Rightarrow> raise_exn (KeyError (repr_str key)) | Some x \<Rightarrow> ret x)"

text \<open>\<^verbatim>\<open>repr\<close> of a list of strings, as an f-string prints it.\<close>

fun join_comma :: "string list \<Rightarrow> string" where
  "join_comma [] = []"
| "join_comma [s] = s"
| "join_comma (s # t # ss) = s @ '', '' @ join_comma (t # ss)"

definition repr_str_list :: "string list \<Rightarrow> string" where
  "repr_str_list ss = ''['' @ join_comma (map repr_str ss) @ '']''"

text \<open>
  A Python string is a list of characters; a \<open>char\<close> stands for one code point, so the
  texts of the model are those within Latin-1. The characters that \<^verbatim>\<open>str.strip()\<close>
  removes are the ones \<^verbatim>\<open>str.isspace\<close> accepts.
\<close>

definition isspace :: "char \<Rightarrow> bool" where
  "isspace c = ((of_char c :: nat) \<in> {9, 10, 11, 12, 13, 28, 29, 30, 31, 32, 133, 160})"

definition strip :: "string \<Rightarrow> string" where
  "strip s = rev (dropWhile isspace (rev (dropWhile isspace s)))"

text \<open>\<^verbatim>\<open>s.split(c)\<close> for a one-character separator.\<close>

fun split_on :: "char \<Rightarrow> string \<Rightarrow> string list" where
  "split_on c [] = [[]]"
| "split_on c (x # xs) =
     (if x = c then [] # split_on c xs
      else (case split_on c xs of [] \<Rightarrow> [[x]] | w # ws \<Rightarrow> (x # w) # ws))"

text \<open>\<^verbatim>\<open>str(n)\<close> for a natural number, as \<^verbatim>\<open>len(...)\<close> is printed in an f-string.\<close>

fun digit_char :: "nat \<Rightarrow> char" where
  "digit_char n = char_of (48 + n mod 10)"

fun show_nat :: "nat \<Rightarrow> string" where
  "show_nat n = (if n < 10 then [digit_char n] else show_nat (n div 10) @ [digit_char n])"

declare show_nat.simps [simp del]

text \<open>\<^verbatim>\<open>arr[i]\<close> on a numpy array, for an index \<open>i \<ge> 0\<close>.\<close>

definition np_getitem :: "'a list \<Rightarrow> nat \<Rightarrow> 'a io" where
  "np_getitem xs i =
     (if i < length xs then ret (xs ! i)
      else raise_exn (IndexError (''index '' @ show_nat i @
             '' is out of bounds for axis 0 with size '' @ show_nat (length xs))))"

subsection \<open>Loaded artifacts and the registry\<close>

text \<open>
  The fitted objects are opaque: a pipeline maps a list of raw texts to an array of class
  indices and to an array of probability rows; the vectorizer maps a list of texts to a
  feature matrix of some type \<open>'x\<close>; a classifier maps a feature matrix to the same two
  arrays. Every method may raise.
\<close>

record pipeline_obj =
  pl_predict :: "string list \<Rightarrow> exn + int list"
  pl_predict_proba :: "string list \<Rightarrow> exn + real list list"

record 'x vectorizer_obj =
  vec_transform :: "string list \<Rightarrow> exn + 'x"

record 'x classifier_obj =
  clf_predict :: "'x \<Rightarrow> exn + int list"
  clf_predict_proba :: "'x \<Rightarrow> exn + real list list"

text \<open>
  The dict \<^verbatim>\<open>models\<close> is used as a structure with ten fixed keys. An artifact key is
  present exactly when an object was stored under it (\<open>None\<close> is the absent key); the
  five \<^verbatim>\<open>*_available\<close> keys hold booleans. Every dict that \<^verbatim>\<open>load_models\<close> returns has
  all five flags, so \<^verbatim>\<open>models.get('..._available')\<close> is a field read.
\<close>

record 'x models =
  pipeline :: "pipeline_obj option"
  pipeline_available :: bool
  vectorizer :: "'x vectorizer_obj option"
  vectorizer_available :: bool
  svm :: "'x classifier_obj option"
  svm_available :: bool
  decision_tree :: "'x classifier_obj option"
  dt_available :: bool
  adaboost :: "'x classifier_obj option"
  ada_available :: bool

definition empty_models :: "'x models" where
  "empty_models =
     \<lparr>pipeline = None, pipeline_available = False,
      vectorizer = None, vectorizer_available = False,
      svm = None, svm_available = False,
      decision_tree = None, dt_available = False,
      adaboost = None, ada_available = False\<rparr>"

text \<open>
  The input of \<^verbatim>\<open>load_models\<close>: what \<^verbatim>\<open>joblib.load\<close> does on each of the five
  paths under \<^verbatim>\<open>models/\<close>, the object it returns or the exception it raises.
\<close>

record 'x files =
  ai_detection_pipeline_pkl :: "exn + pipeline_obj"
  tfidf_vectorizer_pkl :: "exn + 'x vectorizer_obj"
  svm_model_pkl :: "exn + 'x classifier_obj"
  dt_model_pkl :: "exn + 'x classifier_obj"
  ada_model_pkl :: "exn + 'x classifier_obj"

subsection \<open>load_models\<close>

text \<open>
  One inner \<^verbatim>\<open>try ... except FileNotFoundError\<close> block of \<^verbatim>\<open>load_models\<close> (the source
  has five of them, lines 57 to 89): the object is stored and the flag set, a missing file
  clears the flag, any other exception leaves the block.
\<close>

definition try_load ::
  "string \<Rightarrow> exn + 'a \<Rightarrow> ('a \<Rightarrow> 'm \<Rightarrow> 'm) \<Rightarrow> ('m \<Rightarrow> 'm) \<Rightarrow> 'm \<Rightarrow> 'm io" where
  "try_load path outcome on_loaded on_missing m =
     (case call (JoblibLoad path) outcome of
        (Inr obj, evs) \<Rightarrow> (Inr (on_loaded obj m), evs)
      | (Inl e, evs) \<Rightarrow>
          if is_FileNotFoundError e then (Inr (on_missing m), evs) else (Inl e, evs))"

text \<open>The five loads, in the order of the source (lines 56 to 89).\<close>

definition load_artifacts :: "'x files \<Rightarrow> 'x models io" where
  "load_artifacts fs =
     seq (try_load ''models/ai_detection_pipeline.pkl'' (ai_detection_pipeline_pkl fs)
            (\<lambda>obj m. m\<lparr>pipeline := Some obj, pipeline_available := True\<rparr>)
            (\<lambda>m. m\<lparr>pipeline_available := False\<rparr>) empty_models) (\<lambda>m1.
     seq (try_load ''models/tfidf_vectorizer.pkl'' (tfidf_vectorizer_pkl fs)
            (\<lambda>obj m. m\<lparr>vectorizer := Some obj, vectorizer_available := True\<rparr>)
            (\<lambda>m. m\<lparr>vectorizer_available := False\<rparr>) m1) (\<lambda>m2.
     seq (try_load ''models/svm_model.pkl'' (svm_model_pkl fs)
            (\<lambda>obj m. m\<lparr>svm := Some obj, svm_available := True\<rparr>)
            (\<lambda>m. m\<lparr>svm_available := False\<rparr>) m2) (\<lambda>m3.
     seq (try_load ''models/dt_model.pkl'' (dt_model_pkl fs)
            (\<lambda>obj m. m\<lparr>decision_tree := Some obj, dt_available := True\<rparr>)
            (\<lambda>m. m\<lparr>dt_available := False\<rparr>) m3) (\<lambda>m4.
     try_load ''models/ada_model.pkl'' (ada_model_pkl fs)
            (\<lambda>obj m. m\<lparr>adaboost := Some obj, ada_available := True\<rparr>)
            (\<lambda>m. m\<lparr>ada_available := False\<rparr>) m4))))"

text \<open>
  The body of the outer \<^verbatim>\<open>try\<close> of \<^verbatim>\<open>load_models\<close> (lines 56 to 99): the loads,
  then the check that at least one complete setup is available.
\<close>

definition load_models_try :: "'x files \<Rightarrow> 'x models option io" where
  "load_models_try fs =
     seq (load_artifacts fs) (\<lambda>models.
     let pipeline_ready = pipeline_available models;
         individual_ready = (vectorizer_available models \<and>
            (svm_available models \<or> dt_available models \<or> ada_available models))
     in if \<not> (pipeline_ready \<or> individual_ready)
        then seq (emit (StError ''No complete model setup found!'')) (\<lambda>_. ret None)
        else ret (Some models))"

text \<open>
  \<^verbatim>\<open>load_models\<close>: the outer \<^verbatim>\<open>except Exception\<close> reports the exception and returns
  \<^verbatim>\<open>None\<close>. (The decorator \<^verbatim>\<open>st.cache_resource\<close> only memoises the call.)
\<close>

definition load_models :: "'x files \<Rightarrow> 'x models option \<times> event list" where
  "load_models fs =
     (case load_models_try fs of
        (Inr r, evs) \<Rightarrow> (r, evs)
      | (Inl e, evs) \<Rightarrow> (None, evs @ [StError (''Error loading models: '' @ str_exn e)]))"

subsection \<open>make_prediction\<close>

text \<open>
  The two statements that use the complete pipeline on the raw text (lines 120 to 121,
  and again lines 126 to 127).
\<close>

definition use_pipeline :: "string \<Rightarrow> 'x models \<Rightarrow> (int option \<times> real list option) io" where
  "use_pipeline text models =
     seq (dict_getitem (pipeline models) ''pipeline'') (\<lambda>p.
     seq (call (ModelCall Pipeline Predict) (pl_predict p [text])) (\<lambda>ys.
     seq (np_getitem ys 0) (\<lambda>prediction.
     seq (dict_getitem (pipeline models) ''pipeline'') (\<lambda>p'.
     seq (call (ModelCall Pipeline PredictProba) (pl_predict_proba p' [text])) (\<lambda>ps.
     seq (np_getitem ps 0) (\<lambda>probabilities.
     ret (Some prediction, Some probabilities)))))))"

text \<open>
  The three statements that use the vectorizer and one separately stored classifier
  (lines 130 to 132, 137 to 139 and 143 to 145); \<open>clf\<close> is the dict entry of the
  classifier and \<open>key\<close> its key.
\<close>

definition use_individual ::
  "artifact \<Rightarrow> string \<Rightarrow> 'x classifier_obj option \<Rightarrow> string \<Rightarrow> 'x models \<Rightarrow>
   (int option \<times> real list option) io" where
  "use_individual art key clf text models =
     seq (dict_getitem (vectorizer models) ''vectorizer'') (\<lambda>v.
     seq (call (ModelCall Vectorizer Transform) (vec_transform v [text])) (\<lambda>X.
     seq (dict_getitem clf key) (\<lambda>c.
     seq (call (ModelCall art Predict) (clf_predict c X)) (\<lambda>ys.
     seq (np_getitem ys 0) (\<lambda>prediction.
     seq (dict_getitem clf key) (\<lambda>c'.
     seq (call (ModelCall art PredictProba) (clf_predict_proba c' X)) (\<lambda>ps.
     seq (np_getitem ps 0) (\<lambda>probabilities.
     ret (Some prediction, Some probabilities)))))))))"

text \<open>The branching on \<^verbatim>\<open>model_choice\<close> (lines 115 to 145).\<close>

definition run_selected_model ::
  "string \<Rightarrow> string \<Rightarrow> 'x models \<Rightarrow> (int option \<times> real list option) io" where
  "run_selected_model text model_choice models =
     (if model_choice = ''pipeline'' \<and> pipeline_available models then
        use_pipeline text models
      else if model_choice = ''svm'' then
        (if pipeline_available models then
           use_pipeline text models
         else if vectorizer_available models \<and> svm_available models then
           use_individual SVMClassifier ''svm'' (svm models) text models
         else ret (None, None))
      else if model_choice = ''decision_tree'' then
        (if vectorizer_available models \<and> dt_available models then
           use_individual DecisionTreeClassifier ''decision_tree'' (decision_tree models) text models
         else ret (None, None))
      else if model_choice = ''adaboost'' then
        (if vectorizer_available models \<and> ada_available models then
           use_individual AdaBoostClassifier ''adaboost'' (adaboost models) text models
         else ret (None, None))
      else ret (None, None))"

definition class_names :: "string list" where
  "class_names = [''Human'', ''AI'']"

text \<open>The conversion to a label (lines 147 to 153).\<close>

definition to_readable ::
  "int option \<times> real list option \<Rightarrow> (string option \<times> real list option) io" where
  "to_readable pp =
     (case pp of
        (Some prediction, Some probabilities) \<Rightarrow>
          seq (py_getitem class_names prediction) (\<lambda>prediction_label.
          ret (Some prediction_label, Some probabilities))
      | _ \<Rightarrow> ret (None, None))"

text \<open>The body of the \<^verbatim>\<open>try\<close> of \<^verbatim>\<open>make_prediction\<close> (lines 115 to 153).\<close>

definition make_prediction_try ::
  "string \<Rightarrow> string \<Rightarrow> 'x models \<Rightarrow> (string option \<times> real list option) io" where
  "make_prediction_try text model_choice models =
     seq (run_selected_model text model_choice models) to_readable"

text \<open>
  \<^verbatim>\<open>[k for k, v in models.items() if isinstance(v, bool) and v]\<close>: the flags are
  inserted in the order in which \<^verbatim>\<open>load_models\<close> sets them.
\<close>

definition true_flags :: "'x models \<Rightarrow> string list" where
  "true_flags models =
     (if pipeline_available models then [''pipeline_available''] else []) @
     (if vectorizer_available models then [''vectorizer_available''] else []) @
     (if svm_available models then [''svm_available''] else []) @
     (if dt_available models then [''dt_available''] else []) @
     (if ada_available models then [''ada_available''] else [])"

definition make_prediction ::
  "string \<Rightarrow> string \<Rightarrow> 'x models option \<Rightarrow> (string option \<times> real list option) \<times> event list" where
  "make_prediction text model_choice models_opt =
     (case models_opt of
        None \<Rightarrow> ((None, None), [])
      | Some models \<Rightarrow>
          (case make_prediction_try text model_choice models of
             (Inr r, evs) \<Rightarrow> (r, evs)
           | (Inl e, evs) \<Rightarrow>
               ((None, None),
                evs @ [StError (''Error making prediction: '' @ str_exn e),
                       StError (''Model choice: '' @ model_choice),
                       StError (''Available models: '' @ repr_str_list (true_flags models))])))"

subsection \<open>get_available_models\<close>

text \<open>
  The pictographs in the display names and messages are written as their UTF-8 bytes.
\<close>

definition chart_sign :: string where
  "chart_sign = [CHR 0xF0, CHR 0x9F, CHR 0x93, CHR 0x88]"

definition target_sign :: string where
  "target_sign = [CHR 0xF0, CHR 0x9F, CHR 0x8E, CHR 0xAF]"

definition check_sign :: string where
  "check_sign = [CHR 0xE2, CHR 0x9C, CHR 0x85]"

definition warning_sign :: string where
  "warning_sign = [CHR 0xE2, CHR 0x9A, CHR 0xA0, CHR 0xEF, CHR 0xB8, CHR 0x8F]"

definition get_available_models :: "'x models option \<Rightarrow> (string \<times> string) list" where
  "get_available_models models_opt =
     (case models_opt of
        None \<Rightarrow> []
      | Some models \<Rightarrow>
          (if pipeline_available models then [(''svm'', chart_sign @ '' SVM (Pipeline)'')]
           else if vectorizer_available models \<and> svm_available models
             then [(''svm'', chart_sign @ '' SVM (Individual)'')]
           else []) @
          (if vectorizer_available models \<and> dt_available models
             then [(''decision_tree'', target_sign @ '' Decision Tree'')] else []) @
          (if vectorizer_available models \<and> ada_available models
             then [(''adaboost'', target_sign @ '' AdaBoost'')] else []))"

subsection \<open>The batch processing page\<close>

text \<open>
  One row of the result table. The parameter \<open>fmt\<close> of the functions below is the
  float formatting \<^verbatim>\<open>f"{x:.1%}"\<close>.
\<close>

record row =
  Text :: string
  Full_Text :: string
  Prediction :: string
  Confidence :: string
  Human_Prob :: string
  AI_Prob :: string

text \<open>The dict literal of lines 445 to 452; its entries are evaluated in order.\<close>

definition make_row :: "(real \<Rightarrow> string) \<Rightarrow> string \<Rightarrow> string \<Rightarrow> real list \<Rightarrow> row io" where
  "make_row fmt text prediction probabilities =
     seq (py_max probabilities) (\<lambda>mx.
     seq (np_getitem probabilities 0) (\<lambda>p0.
     seq (np_getitem probabilities 1) (\<lambda>p1.
     ret \<lparr>Text = (if length text > 100 then take 100 text @ ''...'' else text),
          Full_Text = text,
          Prediction = prediction,
          Confidence = fmt mx,
          Human_Prob = fmt p0,
          AI_Prob = fmt p1\<rparr>)))"

text \<open>
  The test \<^verbatim>\<open>prediction and probabilities is not None\<close>: a label that is neither
  \<^verbatim>\<open>None\<close> nor the empty string, and a probability vector that is not \<^verbatim>\<open>None\<close>.
\<close>

definition got_result :: "string option \<times> real list option \<Rightarrow> bool" where
  "got_result r =
     (case r of (Some prediction, Some probabilities) \<Rightarrow> prediction \<noteq> [] | _ \<Rightarrow> False)"

text \<open>The loop over the texts (lines 440 to 454), with \<^verbatim>\<open>results\<close> as accumulator.\<close>

fun batch_loop ::
  "(real \<Rightarrow> string) \<Rightarrow> string \<Rightarrow> 'x models option \<Rightarrow> string list \<Rightarrow> row list \<Rightarrow> row list io" where
  "batch_loop fmt model_choice models [] results = ret results"
| "batch_loop fmt model_choice models (text # texts) results =
     seq (if strip text \<noteq> [] then
            seq (case make_prediction text model_choice models of (r, evs) \<Rightarrow> (Inr r, evs)) (\<lambda>r.
            if got_result r then
              seq (make_row fmt text (the (fst r)) (the (snd r))) (\<lambda>new_row.
              ret (results @ [new_row]))
            else ret results)
          else ret results) (\<lambda>results'.
     batch_loop fmt model_choice models texts results')"

text \<open>
  The page from the parsed \<^verbatim>\<open>texts\<close> on (lines 431 to 498), inside the \<^verbatim>\<open>try\<close> of
  line 412. The value is the list of rows that the page displays; the summary metrics, the
  preview table and the download button that follow the success message are layout.
\<close>

definition process_texts ::
  "(real \<Rightarrow> string) \<Rightarrow> string list \<Rightarrow> string \<Rightarrow> 'x models option \<Rightarrow> row list \<times> event list" where
  "process_texts fmt texts model_choice models =
     (case (if texts = [] then
              seq (emit (StError ''No text found in file'')) (\<lambda>_. ret [])
            else
              seq (emit (StInfo (''Processing '' @ show_nat (length texts) @ '' texts...''))) (\<lambda>_.
              seq (batch_loop fmt model_choice models texts []) (\<lambda>results.
              if results \<noteq> [] then
                seq (emit (StSuccess (check_sign @ '' Processed '' @ show_nat (length results) @
                       '' texts successfully!''))) (\<lambda>_. ret results)
              else
                seq (emit (StError ''No valid texts could be processed'')) (\<lambda>_. ret results))))
      of
        (Inr results, evs) \<Rightarrow> (results, evs)
      | (Inl e, evs) \<Rightarrow> ([], evs @ [StError (''Error processing file: '' @ str_exn e)]))"

subsection \<open>The model comparison page\<close>

record cmp_row =
  cmp_Model :: string
  cmp_Prediction :: string
  cmp_Confidence :: string
  cmp_Human :: string
  cmp_AI :: string
  cmp_Raw_Probs :: "real list"

text \<open>The dict literal of lines 553 to 560.\<close>

definition make_cmp_row ::
  "(real \<Rightarrow> string) \<Rightarrow> string \<Rightarrow> string \<Rightarrow> real list \<Rightarrow> cmp_row io" where
  "make_cmp_row fmt model_name prediction probabilities =
     seq (py_max probabilities) (\<lambda>mx.
     seq (np_getitem probabilities 0) (\<lambda>p0.
     seq (np_getitem probabilities 1) (\<lambda>p1.
     ret \<lparr>cmp_Model = model_name,
          cmp_Prediction = prediction,
          cmp_Confidence = fmt mx,
          cmp_Human = fmt p0,
          cmp_AI = fmt p1,
          cmp_Raw_Probs = probabilities\<rparr>)))"

text \<open>The loop over the available models (lines 549 to 560).\<close>

fun compare_loop ::
  "(real \<Rightarrow> string) \<Rightarrow> string \<Rightarrow> 'x models option \<Rightarrow> (string \<times> string) list \<Rightarrow>
   cmp_row list \<Rightarrow> cmp_row list io" where
  "compare_loop fmt comparison_text models [] comparison_results = ret comparison_results"
| "compare_loop fmt comparison_text models ((model_key, model_name) # rest) comparison_results =
     seq (seq (case make_prediction comparison_text model_key models of (r, evs) \<Rightarrow> (Inr r, evs)) (\<lambda>r.
          if got_result r then
            seq (make_cmp_row fmt model_name (the (fst r)) (the (snd r))) (\<lambda>new_row.
            ret (comparison_results @ [new_row]))
          else ret comparison_results)) (\<lambda>comparison_results'.
     compare_loop fmt comparison_text models rest comparison_results')"

text \<open>The lines written when the models disagree (lines 573 to 575).\<close>

fun write_disagreement :: "cmp_row list \<Rightarrow> unit io" where
  "write_disagreement [] = ret ()"
| "write_disagreement (result # rest) =
     seq (if CHR '' '' \<in> set (cmp_Model result)
          then py_getitem (split_on CHR '' '' (cmp_Model result)) 1
          else ret (cmp_Model result)) (\<lambda>model_name.
     seq (emit (StWrite (''- '' @ model_name @ '': '' @ cmp_Prediction result))) (\<lambda>_.
     write_disagreement rest))"

text \<open>The agreement analysis (lines 567 to 575).\<close>

definition agreement_analysis :: "cmp_row list \<Rightarrow> unit io" where
  "agreement_analysis comparison_results =
     (let predictions = map cmp_Prediction comparison_results
      in if card (set predictions) = 1 then
           seq (py_getitem predictions 0) (\<lambda>first.
           emit (StSuccess (check_sign @ '' All models agree: **'' @ first @ '' Written**'')))
         else
           seq (emit (StWarning (warning_sign @ '' Models disagree on prediction''))) (\<lambda>_.
           write_disagreement comparison_results))"

text \<open>
  What the page does once the button is pressed on a text that is not blank: the loop, the
  agreement analysis and the message shown when there is no result (lines 546 to 575 and
  593 to 594; the table and the charts in between are layout). No \<^verbatim>\<open>try\<close> encloses
  it: an exception leaves the page.
\<close>

definition compare_models ::
  "(real \<Rightarrow> string) \<Rightarrow> string \<Rightarrow> 'x models option \<Rightarrow> (string \<times> string) list \<Rightarrow> cmp_row list io" where
  "compare_models fmt comparison_text models available_models =
     seq (compare_loop fmt comparison_text models available_models []) (\<lambda>comparison_results.
     if comparison_results \<noteq> [] then
       seq (agreement_analysis comparison_results) (\<lambda>_. ret comparison_results)
     else
       seq (emit (StError ''Failed to get predictions from models'')) (\<lambda>_. ret comparison_results))"

section \<open>Properties\<close>

subsection \<open>Vocabulary\<close>

text \<open>
  The three outcomes of one \<^verbatim>\<open>joblib.load\<close>: the file is loaded, it is missing
  (\<^verbatim>\<open>FileNotFoundError\<close>), or the load fails with another exception.
\<close>

definition loaded :: "exn + 'a \<Rightarrow> bool" where
  "loaded r = (case r of Inr _ \<Rightarrow> True | Inl _ \<Rightarrow> False)"

definition stored :: "exn + 'a \<Rightarrow> 'a option" where
  "stored r = (case r of Inr obj \<Rightarrow> Some obj | Inl _ \<Rightarrow> None)"

definition fatal_exn :: "exn + 'a \<Rightarrow> exn option" where
  "fatal_exn r =
     (case r of Inr _ \<Rightarrow> None | Inl e \<Rightarrow> if is_FileNotFoundError e then None else Some e)"

text \<open>The first load, in program order, that fails with an unexpected exception.\<close>

definition first_fatal :: "'x files \<Rightarrow> exn option" where
  "first_fatal fs =
     (case fatal_exn (ai_detection_pipeline_pkl fs) of Some e \<Rightarrow> Some e | None \<Rightarrow>
     (case fatal_exn (tfidf_vectorizer_pkl fs) of Some e \<Rightarrow> Some e | None \<Rightarrow>
     (case fatal_exn (svm_model_pkl fs) of Some e \<Rightarrow> Some e | None \<Rightarrow>
     (case fatal_exn (dt_model_pkl fs) of Some e \<Rightarrow> Some e | None \<Rightarrow>
      fatal_exn (ada_model_pkl fs)))))"

text \<open>The registry in which every artifact is present exactly when its own file loaded.\<close>

definition registry_of :: "'x files \<Rightarrow> 'x models" where
  "registry_of fs =
     \<lparr>pipeline = stored (ai_detection_pipeline_pkl fs),
      pipeline_available = loaded (ai_detection_pipeline_pkl fs),
      vectorizer = stored (tfidf_vectorizer_pkl fs),
      vectorizer_available = loaded (tfidf_vectorizer_pkl fs),
      svm = stored (svm_model_pkl fs),
      svm_available = loaded (svm_model_pkl fs),
      decision_tree = stored (dt_model_pkl fs),
      dt_available = loaded (dt_model_pkl fs),
      adaboost = stored (ada_model_pkl fs),
      ada_available = loaded (ada_model_pkl fs)\<rparr>"

definition all_loads :: "event list" where
  "all_loads =
     [JoblibLoad ''models/ai_detection_pipeline.pkl'', JoblibLoad ''models/tfidf_vectorizer.pkl'',
      JoblibLoad ''models/svm_model.pkl'', JoblibLoad ''models/dt_model.pkl'',
      JoblibLoad ''models/ada_model.pkl'']"

text \<open>The artifacts whose methods were called, and the messages of kind error, in a log.\<close>

fun artifacts_called :: "event list \<Rightarrow> artifact list" where
  "artifacts_called [] = []"
| "artifacts_called (ModelCall a m # evs) = a # artifacts_called evs"
| "artifacts_called (ev # evs) = artifacts_called evs"

fun errors_shown :: "event list \<Rightarrow> string list" where
  "errors_shown [] = []"
| "errors_shown (StError s # evs) = s # errors_shown evs"
| "errors_shown (ev # evs) = errors_shown evs"

text \<open>
  The choices for which the branching of \<^verbatim>\<open>make_prediction\<close> runs a model.
\<close>

definition usable :: "string \<Rightarrow> 'x models \<Rightarrow> bool" where
  "usable model_choice m =
     ((model_choice = ''pipeline'' \<and> pipeline_available m) \<or>
      (model_choice = ''svm'' \<and>
         (pipeline_available m \<or> (vectorizer_available m \<and> svm_available m))) \<or>
      (model_choice = ''decision_tree'' \<and> vectorizer_available m \<and> dt_available m) \<or>
      (model_choice = ''adaboost'' \<and> vectorizer_available m \<and> ada_available m))"


text \<open>The messages of kind success in a log.\<close>

fun successes_shown :: "event list \<Rightarrow> string list" where
  "successes_shown [] = []"
| "successes_shown (StSuccess s # evs) = s # successes_shown evs"
| "successes_shown (ev # evs) = successes_shown evs"

text \<open>
  An available choice answers when its prediction yields a result; the labels returned
  are those of the choices that answer, in the order in which they are queried.
\<close>

definition answered :: "string \<Rightarrow> 'x models option \<Rightarrow> string \<times> string \<Rightarrow> bool" where
  "answered comparison_text models choice =
     got_result (fst (make_prediction comparison_text (fst choice) models))"

definition labels_returned ::
  "string \<Rightarrow> 'x models option \<Rightarrow> (string \<times> string) list \<Rightarrow> string list" where
  "labels_returned comparison_text models available =
     map (\<lambda>choice. the (fst (fst (make_prediction comparison_text (fst choice) models))))
       (filter (answered comparison_text models) available)"

subsection \<open>Example inputs\<close>

text \<open>
  Deterministic stand-ins for the fitted objects, and some outcomes of the five loads.
\<close>

definition stub_pipeline :: pipeline_obj where
  "stub_pipeline = \<lparr>pl_predict = (\<lambda>ts. Inr [1]), pl_predict_proba = (\<lambda>ts. Inr [[0.2, 0.8]])\<rparr>"

definition stub_vectorizer :: "nat list vectorizer_obj" where
  "stub_vectorizer = \<lparr>vec_transform = (\<lambda>ts. Inr (map length ts))\<rparr>"

definition stub_classifier :: "int \<Rightarrow> real list \<Rightarrow> nat list classifier_obj" where
  "stub_classifier y ps = \<lparr>clf_predict = (\<lambda>X. Inr [y]), clf_predict_proba = (\<lambda>X. Inr [ps])\<rparr>"

definition files_vec_dt :: "nat list files" where
  "files_vec_dt =
     \<lparr>ai_detection_pipeline_pkl = Inl (FileNotFoundError ''models/ai_detection_pipeline.pkl''),
      tfidf_vectorizer_pkl = Inr stub_vectorizer,
      svm_model_pkl = Inl (FileNotFoundError ''models/svm_model.pkl''),
      dt_model_pkl = Inr (stub_classifier 0 [0.8, 0.2]),
      ada_model_pkl = Inl (FileNotFoundError ''models/ada_model.pkl'')\<rparr>"


text \<open>A classifier whose calls raise, and further outcomes of the five loads.\<close>

definition failing_classifier :: "nat list classifier_obj" where
  "failing_classifier =
     \<lparr>clf_predict = (\<lambda>X. Inl (ValueError ''X has 1 features, but 5000 are expected'')),
      clf_predict_proba = (\<lambda>X. Inl (ValueError ''X has 1 features, but 5000 are expected''))\<rparr>"

definition files_all :: "nat list files" where
  "files_all =
     \<lparr>ai_detection_pipeline_pkl = Inr stub_pipeline,
      tfidf_vectorizer_pkl = Inr stub_vectorizer,
      svm_model_pkl = Inr (stub_classifier 0 [0.9, 0.1]),
      dt_model_pkl = Inr (stub_classifier 0 [0.8, 0.2]),
      ada_model_pkl = Inr (stub_classifier 1 [0.3, 0.7])\<rparr>"

definition files_vec_svm :: "nat list files" where
  "files_vec_svm =
     \<lparr>ai_detection_pipeline_pkl = Inl (FileNotFoundError ''models/ai_detection_pipeline.pkl''),
      tfidf_vectorizer_pkl = Inr stub_vectorizer,
      svm_model_pkl = Inr (stub_classifier 0 [0.9, 0.1]),
      dt_model_pkl = Inl (FileNotFoundError ''models/dt_model.pkl''),
      ada_model_pkl = Inl (FileNotFoundError ''models/ada_model.pkl'')\<rparr>"

definition files_failing_dt :: "nat list files" where
  "files_failing_dt =
     \<lparr>ai_detection_pipeline_pkl = Inl (FileNotFoundError ''models/ai_detection_pipeline.pkl''),
      tfidf_vectorizer_pkl = Inr stub_vectorizer,
      svm_model_pkl = Inl (FileNotFoundError ''models/svm_model.pkl''),
      dt_model_pkl = Inr failing_classifier,
      ada_model_pkl = Inl (FileNotFoundError ''models/ada_model.pkl'')\<rparr>"

text \<open>A stand-in for the percent formatting.\<close>

definition fmt_stub :: "real \<Rightarrow> string" where
  "fmt_stub x = (if x < 1 / 2 then ''low'' else ''high'')"

text \<open>A decision tree that raises on a feature matrix it does not expect.\<close>

definition picky_classifier :: "nat list classifier_obj" where
  "picky_classifier =
     \<lparr>clf_predict = (\<lambda>X. if X = [3] then Inl (ValueError ''unexpected input'') else Inr [1]),
      clf_predict_proba = (\<lambda>X. Inr [[0.4, 0.6]])\<rparr>"

definition files_picky_dt :: "nat list files" where
  "files_picky_dt =
     \<lparr>ai_detection_pipeline_pkl = Inl (FileNotFoundError ''models/ai_detection_pipeline.pkl''),
      tfidf_vectorizer_pkl = Inr stub_vectorizer,
      svm_model_pkl = Inl (FileNotFoundError ''models/svm_model.pkl''),
      dt_model_pkl = Inr picky_classifier,
      ada_model_pkl = Inl (FileNotFoundError ''models/ada_model.pkl'')\<rparr>"

definition files_all_ai :: "nat list files" where
  "files_all_ai =
     \<lparr>ai_detection_pipeline_pkl = Inr stub_pipeline,
      tfidf_vectorizer_pkl = Inr stub_vectorizer,
      svm_model_pkl = Inr (stub_classifier 1 [0.1, 0.9]),
      dt_model_pkl = Inr (stub_classifier 1 [0.4, 0.6]),
      ada_model_pkl = Inr (stub_classifier 1 [0.3, 0.7])\<rparr>"

definition files_failing_svm_dt :: "nat list files" where
  "files_failing_svm_dt =
     \<lparr>ai_detection_pipeline_pkl = Inl (FileNotFoundError ''models/ai_detection_pipeline.pkl''),
      tfidf_vectorizer_pkl = Inr stub_vectorizer,
      svm_model_pkl = Inr failing_classifier,
      dt_model_pkl = Inr failing_classifier,
      ada_model_pkl = Inl (FileNotFoundError ''models/ada_model.pkl'')\<rparr>"

section \<open>Proofs\<close>

subsection \<open>Sequencing\<close>

lemma seq_ret [simp]: "seq (ret a) f = f a"
  by (simp add: seq_def ret_def split: prod.splits)

lemma seq_raise [simp]: "seq (raise_exn e) f = raise_exn e"
  by (simp add: seq_def raise_exn_def)

lemma seq_Inl [simp]: "seq (Inl e, evs) f = (Inl e, evs)"
  by (simp add: seq_def)

lemma seq_Inr [simp]: "seq (Inr a, evs) f = (fst (f a), evs @ snd (f a))"
  by (simp add: seq_def split: prod.splits)

lemma errors_shown_append [simp]:
  "errors_shown (xs @ ys) = errors_shown xs @ errors_shown ys"
  by (induction xs rule: errors_shown.induct) simp_all

lemma artifacts_called_append [simp]:
  "artifacts_called (xs @ ys) = artifacts_called xs @ artifacts_called ys"
  by (induction xs rule: artifacts_called.induct) simp_all

subsection \<open>Loading\<close>

lemma try_load_Inr [simp]:
  "try_load path (Inr obj) f g m = (Inr (f obj m), [JoblibLoad path])"
  by (simp add: try_load_def call_def)

lemma try_load_Inl [simp]:
  "try_load path (Inl e) f g m =
     (if is_FileNotFoundError e then (Inr (g m), [JoblibLoad path])
      else (Inl e, [JoblibLoad path]))"
  by (simp add: try_load_def call_def)

lemma try_load_no_fatal:
  "fatal_exn r = None \<Longrightarrow>
   try_load path r f g m =
     (Inr (case stored r of Some obj \<Rightarrow> f obj m | None \<Rightarrow> g m), [JoblibLoad path])"
  by (cases r) (auto simp: fatal_exn_def stored_def split: if_splits)

lemma first_fatal_None:
  "first_fatal fs = None \<longleftrightarrow>
     fatal_exn (ai_detection_pipeline_pkl fs) = None \<and>
     fatal_exn (tfidf_vectorizer_pkl fs) = None \<and>
     fatal_exn (svm_model_pkl fs) = None \<and>
     fatal_exn (dt_model_pkl fs) = None \<and>
     fatal_exn (ada_model_pkl fs) = None"
  by (auto simp: first_fatal_def split: option.splits)

lemma load_artifacts_ok:
  assumes "first_fatal fs = None"
  shows "load_artifacts fs = (Inr (registry_of fs), all_loads)"
proof -
  from assms have f:
    "fatal_exn (ai_detection_pipeline_pkl fs) = None"
    "fatal_exn (tfidf_vectorizer_pkl fs) = None"
    "fatal_exn (svm_model_pkl fs) = None"
    "fatal_exn (dt_model_pkl fs) = None"
    "fatal_exn (ada_model_pkl fs) = None"
    by (simp_all add: first_fatal_None)
  show ?thesis
    unfolding load_artifacts_def
    by (simp add: f try_load_no_fatal all_loads_def registry_of_def empty_models_def
          stored_def loaded_def split: sum.splits)
qed


lemma registry_of_flags:
  "pipeline_available (registry_of fs) = loaded (ai_detection_pipeline_pkl fs)"
  "vectorizer_available (registry_of fs) = loaded (tfidf_vectorizer_pkl fs)"
  "svm_available (registry_of fs) = loaded (svm_model_pkl fs)"
  "dt_available (registry_of fs) = loaded (dt_model_pkl fs)"
  "ada_available (registry_of fs) = loaded (ada_model_pkl fs)"
  by (simp_all add: registry_of_def)

text \<open>
  Claim C1. When no load fails with an unexpected exception, \<^verbatim>\<open>load_models\<close> returns a
  registry if and only if the pipeline file loaded, or the vectorizer file loaded and at
  least one of the SVM, decision tree and AdaBoost files loaded. In that case the registry
  returned is the one whose five flags are the five load outcomes; otherwise the result is
  \<^verbatim>\<open>None\<close> and the message "No complete model setup found!" is shown after the loads.
\<close>

theorem load_models_ready_iff:
  assumes "first_fatal fs = None"
  shows "((\<exists>m. fst (load_models fs) = Some m) \<longleftrightarrow>
            (loaded (ai_detection_pipeline_pkl fs) \<or>
             (loaded (tfidf_vectorizer_pkl fs) \<and>
               (loaded (svm_model_pkl fs) \<or> loaded (dt_model_pkl fs) \<or>
                loaded (ada_model_pkl fs)))))
       \<and> ((loaded (ai_detection_pipeline_pkl fs) \<or>
             (loaded (tfidf_vectorizer_pkl fs) \<and>
               (loaded (svm_model_pkl fs) \<or> loaded (dt_model_pkl fs) \<or>
                loaded (ada_model_pkl fs))))
            \<longrightarrow> load_models fs = (Some (registry_of fs), all_loads))
       \<and> (\<not> (loaded (ai_detection_pipeline_pkl fs) \<or>
             (loaded (tfidf_vectorizer_pkl fs) \<and>
               (loaded (svm_model_pkl fs) \<or> loaded (dt_model_pkl fs) \<or>
                loaded (ada_model_pkl fs))))
            \<longrightarrow> load_models fs = (None, all_loads @ [StError ''No complete model setup found!'']))"
proof -
  have la: "load_artifacts fs = (Inr (registry_of fs), all_loads)"
    using assms by (rule load_artifacts_ok)
  show ?thesis
    by (simp add: load_models_def load_models_try_def la registry_of_flags emit_def ret_def Let_def)
qed

theorem load_models_ready_iff_witness:
  "first_fatal files_vec_dt = None \<and>
   load_models files_vec_dt = (Some (registry_of files_vec_dt), all_loads) \<and>
   pipeline_available (registry_of files_vec_dt) = False \<and>
   dt_available (registry_of files_vec_dt) = True"
  using load_models_ready_iff [of files_vec_dt]
  by (simp add: first_fatal_def fatal_exn_def files_vec_dt_def loaded_def registry_of_def)



subsection \<open>Prediction\<close>

lemma fst_seq: "fst (seq m f) = (case fst m of Inl e \<Rightarrow> Inl e | Inr a \<Rightarrow> fst (f a))"
  by (cases m) (auto simp: seq_def split: sum.splits prod.splits)

lemma snd_seq: "snd (seq m f) = snd m @ (case fst m of Inl e \<Rightarrow> [] | Inr a \<Rightarrow> snd (f a))"
  by (cases m) (auto simp: seq_def split: sum.splits prod.splits)

lemma seq_call:
  "seq (call ev r) f = (case r of Inl e \<Rightarrow> (Inl e, [ev]) | Inr a \<Rightarrow> (fst (f a), ev # snd (f a)))"
  by (simp add: call_def split: sum.splits)

lemma py_getitem_class_names:
  "py_getitem class_names y =
     (if y = 0 \<or> y = -2 then ret ''Human''
      else if y = 1 \<or> y = -1 then ret ''AI''
      else raise_exn (IndexError ''list index out of range''))"
proof -
  consider "y = 0" | "y = 1" | "y = -1" | "y = -2" | "y < -2" | "y > 1" by linarith
  then show ?thesis
    by cases (simp_all add: py_getitem_def class_names_def Let_def)
qed

lemma to_readable_Some:
  "to_readable (Some y, Some ps) =
     (if y = 0 \<or> y = -2 then ret (Some ''Human'', Some ps)
      else if y = 1 \<or> y = -1 then ret (Some ''AI'', Some ps)
      else raise_exn (IndexError ''list index out of range''))"
  by (simp add: to_readable_def py_getitem_class_names)

lemma to_readable_None [simp]:
  "to_readable (None, b) = ret (None, None)" "to_readable (a, None) = ret (None, None)"
  by (simp_all add: to_readable_def split: option.splits)

lemma snd_to_readable [simp]: "snd (to_readable pp) = []"
  by (cases pp; cases "fst pp"; cases "snd pp")
     (auto simp: to_readable_Some ret_def raise_exn_def)


lemma use_pipeline_events:
  "set (snd (use_pipeline text m)) \<subseteq> {ModelCall Pipeline Predict, ModelCall Pipeline PredictProba}"
  by (auto simp: use_pipeline_def fst_seq snd_seq dict_getitem_def call_def np_getitem_def ret_def raise_exn_def
      split: sum.splits option.splits if_splits)


lemma use_individual_events:
  "set (snd (use_individual art key clf text m)) \<subseteq>
     {ModelCall Vectorizer Transform, ModelCall art Predict, ModelCall art PredictProba}"
  by (auto simp: use_individual_def fst_seq snd_seq dict_getitem_def call_def np_getitem_def ret_def raise_exn_def
      split: sum.splits option.splits if_splits)




lemma to_readable_value:
  "fst (to_readable pp) = Inr (a, b) \<Longrightarrow>
     (a = None \<longleftrightarrow> b = None) \<and> (\<forall>l. a = Some l \<longrightarrow> l = ''Human'' \<or> l = ''AI'')"
  by (cases pp; cases "fst pp"; cases "snd pp")
     (auto simp: to_readable_Some ret_def raise_exn_def split: if_splits)

lemma make_prediction_try_value:
  "fst (make_prediction_try text mc m) = Inr (a, b) \<Longrightarrow>
     (a = None \<longleftrightarrow> b = None) \<and> (\<forall>l. a = Some l \<longrightarrow> l = ''Human'' \<or> l = ''AI'')"
  unfolding make_prediction_try_def fst_seq
  by (cases "fst (run_selected_model text mc m)") (simp_all add: to_readable_value)

lemma make_prediction_cases:
  "make_prediction text mc (Some m) =
     (case fst (make_prediction_try text mc m) of
        Inr r \<Rightarrow> (r, snd (make_prediction_try text mc m))
      | Inl e \<Rightarrow> ((None, None), snd (make_prediction_try text mc m) @
           [StError (''Error making prediction: '' @ str_exn e),
            StError (''Model choice: '' @ mc),
            StError (''Available models: '' @ repr_str_list (true_flags m))]))"
  by (cases "make_prediction_try text mc m") (simp add: make_prediction_def split: sum.splits)

text \<open>
  Claim C10. \<^verbatim>\<open>make_prediction\<close> returns a label exactly when it returns a probability
  vector; without a registry it returns \<^verbatim>\<open>(None, None)\<close> and shows nothing; a label
  returned is "Human" or "AI".
\<close>

theorem make_prediction_label_with_probabilities:
  "(fst (fst (make_prediction text mc mo)) = None \<longleftrightarrow> snd (fst (make_prediction text mc mo)) = None)
   \<and> make_prediction text mc None = ((None, None), [])
   \<and> (\<forall>l. fst (fst (make_prediction text mc mo)) = Some l \<longrightarrow> l = ''Human'' \<or> l = ''AI'')"
proof (cases mo)
  case None
  then show ?thesis by (simp add: make_prediction_def)
next
  case (Some m)
  show ?thesis
  proof (cases "fst (make_prediction_try text mc m)")
    case (Inl e)
    then show ?thesis by (simp add: Some make_prediction_cases) (simp add: make_prediction_def)
  next
    case (Inr r)
    obtain a b where r: "r = (a, b)" by (cases r)
    from make_prediction_try_value [of "text" mc m a b] Inr r
    show ?thesis by (simp add: Some make_prediction_cases) (simp add: make_prediction_def)
  qed
qed

lemmas stub_defs = stub_pipeline_def stub_vectorizer_def stub_classifier_def failing_classifier_def
  files_all_def files_vec_svm_def files_failing_dt_def files_vec_dt_def registry_of_def
  stored_def loaded_def

lemmas run_defs = make_prediction_def make_prediction_try_def run_selected_model_def
  use_pipeline_def use_individual_def to_readable_def py_getitem_def class_names_def
  dict_getitem_def call_def np_getitem_def ret_def raise_exn_def true_flags_def
  repr_str_list_def repr_str_def

lemma artifacts_called_set:
  "set (artifacts_called evs) = {a. \<exists>me. ModelCall a me \<in> set evs}"
  by (induction evs rule: artifacts_called.induct) auto

lemma artifacts_called_make_prediction:
  "artifacts_called (snd (make_prediction text mc (Some m))) =
   artifacts_called (snd (run_selected_model text mc m))"
  by (simp add: make_prediction_cases make_prediction_try_def snd_seq split: sum.splits)

lemma use_pipeline_ok:
  assumes "pipeline m = Some p" "pl_predict p [text] = Inr (y # ys)"
    "pl_predict_proba p [text] = Inr (ps # pss)"
  shows "use_pipeline text m =
     (Inr (Some y, Some ps), [ModelCall Pipeline Predict, ModelCall Pipeline PredictProba])"
  using assms
  by (simp add: use_pipeline_def dict_getitem_def call_def np_getitem_def ret_def)

lemma use_individual_ok:
  assumes "vectorizer m = Some v" "vec_transform v [text] = Inr X" "clf = Some c"
    "clf_predict c X = Inr (y # ys)" "clf_predict_proba c X = Inr (ps # pss)"
  shows "use_individual art key clf text m =
     (Inr (Some y, Some ps),
      [ModelCall Vectorizer Transform, ModelCall art Predict, ModelCall art PredictProba])"
  using assms
  by (simp add: use_individual_def dict_getitem_def call_def np_getitem_def ret_def)

text \<open>
  Claim C2. With the pipeline available, a request for "svm" calls methods of the pipeline
  only, and when both pipeline calls succeed on the raw text the result is the pipeline's
  class and probability row, whatever the vectorizer and the SVM classifier are. Methods of
  the vectorizer or of the SVM classifier are called for an "svm" request only when the
  pipeline is not available and both of them are; then the result is the classifier's.
\<close>

theorem svm_request_prefers_pipeline:
  "(pipeline_available m \<longrightarrow>
      set (artifacts_called (snd (make_prediction text ''svm'' (Some m)))) \<subseteq> {Pipeline})
   \<and> (\<forall>p y ys ps pss.
        pipeline_available m \<and> pipeline m = Some p \<and> pl_predict p [text] = Inr (y # ys) \<and>
        pl_predict_proba p [text] = Inr (ps # pss) \<and> (y = 0 \<or> y = 1) \<longrightarrow>
        make_prediction text ''svm'' (Some m) =
          ((Some (if y = 0 then ''Human'' else ''AI''), Some ps),
           [ModelCall Pipeline Predict, ModelCall Pipeline PredictProba]))
   \<and> (Vectorizer \<in> set (artifacts_called (snd (make_prediction text ''svm'' (Some m)))) \<or>
       SVMClassifier \<in> set (artifacts_called (snd (make_prediction text ''svm'' (Some m)))) \<longrightarrow>
        \<not> pipeline_available m \<and> vectorizer_available m \<and> svm_available m)
   \<and> (\<forall>v c X y ys ps pss.
        \<not> pipeline_available m \<and> vectorizer_available m \<and> svm_available m \<and>
        vectorizer m = Some v \<and> svm m = Some c \<and> vec_transform v [text] = Inr X \<and>
        clf_predict c X = Inr (y # ys) \<and> clf_predict_proba c X = Inr (ps # pss) \<and>
        (y = 0 \<or> y = 1) \<longrightarrow>
        make_prediction text ''svm'' (Some m) =
          ((Some (if y = 0 then ''Human'' else ''AI''), Some ps),
           [ModelCall Vectorizer Transform, ModelCall SVMClassifier Predict,
            ModelCall SVMClassifier PredictProba]))"
proof -
  have A: "pipeline_available m \<longrightarrow>
      set (artifacts_called (snd (make_prediction text ''svm'' (Some m)))) \<subseteq> {Pipeline}"
  proof
    assume "pipeline_available m"
    then have "run_selected_model text ''svm'' m = use_pipeline text m"
      by (simp add: run_selected_model_def)
    then show "set (artifacts_called (snd (make_prediction text ''svm'' (Some m)))) \<subseteq> {Pipeline}"
      using use_pipeline_events [of "text" m]
      by (auto simp: artifacts_called_make_prediction artifacts_called_set)
  qed
  have B: "\<forall>p y ys ps pss.
        pipeline_available m \<and> pipeline m = Some p \<and> pl_predict p [text] = Inr (y # ys) \<and>
        pl_predict_proba p [text] = Inr (ps # pss) \<and> (y = 0 \<or> y = 1) \<longrightarrow>
        make_prediction text ''svm'' (Some m) =
          ((Some (if y = 0 then ''Human'' else ''AI''), Some ps),
           [ModelCall Pipeline Predict, ModelCall Pipeline PredictProba])"
  proof (intro allI impI)
    fix p y ys ps pss
    assume a: "pipeline_available m \<and> pipeline m = Some p \<and> pl_predict p [text] = Inr (y # ys) \<and>
        pl_predict_proba p [text] = Inr (ps # pss) \<and> (y = 0 \<or> y = 1)"
    then have "run_selected_model text ''svm'' m =
        (Inr (Some y, Some ps), [ModelCall Pipeline Predict, ModelCall Pipeline PredictProba])"
      by (simp add: run_selected_model_def use_pipeline_ok)
    with a show "make_prediction text ''svm'' (Some m) =
          ((Some (if y = 0 then ''Human'' else ''AI''), Some ps),
           [ModelCall Pipeline Predict, ModelCall Pipeline PredictProba])"
      by (auto simp: make_prediction_def make_prediction_try_def to_readable_Some ret_def)
  qed
  have C: "Vectorizer \<in> set (artifacts_called (snd (make_prediction text ''svm'' (Some m)))) \<or>
       SVMClassifier \<in> set (artifacts_called (snd (make_prediction text ''svm'' (Some m)))) \<longrightarrow>
        \<not> pipeline_available m \<and> vectorizer_available m \<and> svm_available m"
  proof
    assume c: "Vectorizer \<in> set (artifacts_called (snd (make_prediction text ''svm'' (Some m)))) \<or>
       SVMClassifier \<in> set (artifacts_called (snd (make_prediction text ''svm'' (Some m))))"
    show "\<not> pipeline_available m \<and> vectorizer_available m \<and> svm_available m"
    proof (rule ccontr)
      assume n: "\<not> (\<not> pipeline_available m \<and> vectorizer_available m \<and> svm_available m)"
      have "set (artifacts_called (snd (run_selected_model text ''svm'' m))) \<subseteq> {Pipeline}"
      proof (cases "pipeline_available m")
        case True
        then have "run_selected_model text ''svm'' m = use_pipeline text m"
          by (simp add: run_selected_model_def)
        then show ?thesis
          using use_pipeline_events [of "text" m] by (auto simp: artifacts_called_set)
      next
        case False
        with n have "run_selected_model text ''svm'' m = ret (None, None)"
          by (auto simp: run_selected_model_def)
        then show ?thesis by (simp add: ret_def)
      qed
      with c show False by (auto simp: artifacts_called_make_prediction)
    qed
  qed
  have D: "\<forall>v c X y ys ps pss.
        \<not> pipeline_available m \<and> vectorizer_available m \<and> svm_available m \<and>
        vectorizer m = Some v \<and> svm m = Some c \<and> vec_transform v [text] = Inr X \<and>
        clf_predict c X = Inr (y # ys) \<and> clf_predict_proba c X = Inr (ps # pss) \<and>
        (y = 0 \<or> y = 1) \<longrightarrow>
        make_prediction text ''svm'' (Some m) =
          ((Some (if y = 0 then ''Human'' else ''AI''), Some ps),
           [ModelCall Vectorizer Transform, ModelCall SVMClassifier Predict,
            ModelCall SVMClassifier PredictProba])"
  proof (intro allI impI)
    fix v c X y ys ps pss
    assume a: "\<not> pipeline_available m \<and> vectorizer_available m \<and> svm_available m \<and>
        vectorizer m = Some v \<and> svm m = Some c \<and> vec_transform v [text] = Inr X \<and>
        clf_predict c X = Inr (y # ys) \<and> clf_predict_proba c X = Inr (ps # pss) \<and>
        (y = 0 \<or> y = 1)"
    then have "run_selected_model text ''svm'' m =
        (Inr (Some y, Some ps), [ModelCall Vectorizer Transform, ModelCall SVMClassifier Predict,
            ModelCall SVMClassifier PredictProba])"
      by (simp add: run_selected_model_def use_individual_ok)
    with a show "make_prediction text ''svm'' (Some m) =
          ((Some (if y = 0 then ''Human'' else ''AI''), Some ps),
           [ModelCall Vectorizer Transform, ModelCall SVMClassifier Predict,
            ModelCall SVMClassifier PredictProba])"
      by (auto simp: make_prediction_def make_prediction_try_def to_readable_Some ret_def)
  qed
  from A B C D show ?thesis by (intro conjI)
qed

theorem svm_request_prefers_pipeline_witness:
  "pipeline_available (registry_of files_all) \<and> vectorizer_available (registry_of files_all) \<and>
   svm_available (registry_of files_all) \<and>
   make_prediction ''Great product!'' ''svm'' (Some (registry_of files_all)) =
     ((Some ''AI'', Some [0.2, 0.8]), [ModelCall Pipeline Predict, ModelCall Pipeline PredictProba]) \<and>
   \<not> pipeline_available (registry_of files_vec_svm) \<and>
   make_prediction ''Great product!'' ''svm'' (Some (registry_of files_vec_svm)) =
     ((Some ''Human'', Some [0.9, 0.1]),
      [ModelCall Vectorizer Transform, ModelCall SVMClassifier Predict,
       ModelCall SVMClassifier PredictProba])"
  using svm_request_prefers_pipeline [of "registry_of files_all" "''Great product!''"]
        svm_request_prefers_pipeline [of "registry_of files_vec_svm" "''Great product!''"]
  by (simp add: stub_defs)

text \<open>Evaluation of a sequence on a concrete input, without copying the continuation.\<close>

lemma seq_Inr_case: "seq (Inr a, evs) f = (case f a of (r, evs') \<Rightarrow> (r, evs @ evs'))"
  by (simp add: seq_def)

theorem make_prediction_label_with_probabilities_witness:
  "make_prediction ''Great product!'' ''decision_tree'' (Some (registry_of files_vec_dt)) =
     ((Some ''Human'', Some [0.8, 0.2]),
      [ModelCall Vectorizer Transform, ModelCall DecisionTreeClassifier Predict,
       ModelCall DecisionTreeClassifier PredictProba]) \<and>
   make_prediction ''Great product!'' ''decision_tree'' (None :: nat list models option) =
     ((None, None), [])"
  using make_prediction_label_with_probabilities
     [of "''Great product!''" "''decision_tree''" "Some (registry_of files_vec_dt)"]
    make_prediction_label_with_probabilities
     [of "''Great product!''" "''decision_tree''" "None :: nat list models option"]
  by (simp add: stub_defs run_defs seq_Inr_case del: seq_Inr)

lemma errors_shown_calls:
  "\<forall>ev\<in>set evs. \<exists>a me. ev = ModelCall a me \<Longrightarrow> errors_shown evs = []"
  by (induction evs rule: errors_shown.induct) auto

lemma run_selected_model_events:
  "\<forall>ev\<in>set (snd (run_selected_model text mc m)). \<exists>a me. ev = ModelCall a me"
proof -
  have P: "\<forall>ev\<in>set (snd (use_pipeline text m)). \<exists>a me. ev = ModelCall a me"
    using use_pipeline_events [of "text" m] by blast
  have I: "\<And>art key clf. \<forall>ev\<in>set (snd (use_individual art key clf text m)). \<exists>a me. ev = ModelCall a me"
    subgoal for art key clf using use_individual_events [of art key clf "text" m] by blast
    done
  show ?thesis
    unfolding run_selected_model_def using P I by (simp add: ret_def)
qed

lemma make_prediction_try_events:
  "snd (make_prediction_try text mc m) = snd (run_selected_model text mc m)"
  by (simp add: make_prediction_try_def snd_seq split: sum.splits)

lemma errors_shown_try [simp]: "errors_shown (snd (make_prediction_try text mc m)) = []"
  using run_selected_model_events [of "text" mc m]
  by (simp add: make_prediction_try_events errors_shown_calls)




subsection \<open>Available models\<close>

text \<open>
  Claim C4. \<^verbatim>\<open>get_available_models\<close> lists "svm" when the pipeline is available or the
  vectorizer and the SVM classifier both are, "decision_tree" when the vectorizer and the
  decision tree both are, "adaboost" when the vectorizer and AdaBoost both are, in this
  order and each at most once; these are the keys, other than "pipeline", for which
  \<^verbatim>\<open>make_prediction\<close> runs a model. With only the vectorizer and the decision tree the
  list is the single key "decision_tree". Without a registry the list is empty.
\<close>

theorem get_available_models_table:
  "map fst (get_available_models (Some m)) =
     (if pipeline_available m \<or> (vectorizer_available m \<and> svm_available m) then [''svm''] else []) @
     (if vectorizer_available m \<and> dt_available m then [''decision_tree''] else []) @
     (if vectorizer_available m \<and> ada_available m then [''adaboost''] else [])
   \<and> distinct (map fst (get_available_models (Some m)))
   \<and> (\<forall>mc. mc \<in> set (map fst (get_available_models (Some m))) \<longleftrightarrow>
             mc \<noteq> ''pipeline'' \<and> usable mc m)
   \<and> (\<not> pipeline_available m \<and> vectorizer_available m \<and> \<not> svm_available m \<and>
       dt_available m \<and> \<not> ada_available m \<longrightarrow>
         map fst (get_available_models (Some m)) = [''decision_tree''])
   \<and> get_available_models (None :: 'x models option) = []"
proof -
  have A: "map fst (get_available_models (Some m)) =
     (if pipeline_available m \<or> (vectorizer_available m \<and> svm_available m) then [''svm''] else []) @
     (if vectorizer_available m \<and> dt_available m then [''decision_tree''] else []) @
     (if vectorizer_available m \<and> ada_available m then [''adaboost''] else [])"
    by (simp add: get_available_models_def)
  have B: "distinct (map fst (get_available_models (Some m)))"
    unfolding A by simp
  have C: "\<forall>mc. mc \<in> set (map fst (get_available_models (Some m))) \<longleftrightarrow>
             mc \<noteq> ''pipeline'' \<and> usable mc m"
    unfolding A usable_def by auto
  have D: "\<not> pipeline_available m \<and> vectorizer_available m \<and> \<not> svm_available m \<and>
       dt_available m \<and> \<not> ada_available m \<longrightarrow>
         map fst (get_available_models (Some m)) = [''decision_tree'']"
    unfolding A by simp
  have E: "get_available_models (None :: 'x models option) = []"
    by (simp add: get_available_models_def)
  from A B C D E show ?thesis by (intro conjI)
qed

theorem get_available_models_table_witness:
  "\<not> pipeline_available (registry_of files_vec_dt) \<and> vectorizer_available (registry_of files_vec_dt) \<and>
   \<not> svm_available (registry_of files_vec_dt) \<and> dt_available (registry_of files_vec_dt) \<and>
   \<not> ada_available (registry_of files_vec_dt) \<and>
   map fst (get_available_models (Some (registry_of files_vec_dt))) = [''decision_tree'']"
proof -
  have f: "\<not> pipeline_available (registry_of files_vec_dt)"
    "vectorizer_available (registry_of files_vec_dt)"
    "\<not> svm_available (registry_of files_vec_dt)"
    "dt_available (registry_of files_vec_dt)"
    "\<not> ada_available (registry_of files_vec_dt)"
    by (simp_all add: registry_of_flags files_vec_dt_def loaded_def)
  with get_available_models_table [of "registry_of files_vec_dt"]
  show ?thesis by blast
qed

subsection \<open>Labels, probabilities and confidence\<close>


lemma make_cmp_row_pair:
  "make_cmp_row fmt name label [p0, p1] =
     ret \<lparr>cmp_Model = name, cmp_Prediction = label, cmp_Confidence = fmt (max p0 p1),
          cmp_Human = fmt p0, cmp_AI = fmt p1, cmp_Raw_Probs = [p0, p1]\<rparr>"
  by (simp add: make_cmp_row_def py_max_def np_getitem_def ret_def max.commute)



subsection \<open>Batch processing\<close>

text \<open>
  Claim C8. On an empty list of texts the page shows the error "No text found in file" and
  nothing else: no method of any model is called and no row is produced.
\<close>

theorem empty_batch_stops_before_prediction:
  "process_texts fmt [] mc models = ([], [StError ''No text found in file''])
   \<and> artifacts_called (snd (process_texts fmt [] mc models)) = []
   \<and> errors_shown (snd (process_texts fmt [] mc models)) = [''No text found in file'']"
  by (simp add: process_texts_def emit_def ret_def)

theorem empty_batch_stops_before_prediction_witness:
  "process_texts fmt_stub [] ''svm'' (Some (registry_of files_all)) =
     ([], [StError ''No text found in file''])"
  using empty_batch_stops_before_prediction [of fmt_stub "''svm''" "Some (registry_of files_all)"]
  by simp










lemmas eval_defs = stub_defs run_defs picky_classifier_def files_picky_dt_def files_all_ai_def
  files_failing_svm_dt_def got_result_def



subsection \<open>Model comparison\<close>

lemma successes_shown_append [simp]:
  "successes_shown (xs @ ys) = successes_shown xs @ successes_shown ys"
  by (induction xs rule: successes_shown.induct) simp_all

lemma successes_shown_calls:
  "\<forall>ev\<in>set evs. \<exists>a me. ev = ModelCall a me \<Longrightarrow> successes_shown evs = []"
  by (induction evs rule: successes_shown.induct) auto

lemma successes_shown_make_prediction [simp]:
  "successes_shown (snd (make_prediction t mc mo)) = []"
proof (cases mo)
  case None
  then show ?thesis by (simp add: make_prediction_def)
next
  case (Some m)
  have "successes_shown (snd (make_prediction_try t mc m)) = []"
    using run_selected_model_events [of t mc m]
    by (simp add: make_prediction_try_events successes_shown_calls)
  then show ?thesis
    by (simp add: Some make_prediction_cases split: sum.splits)
qed

lemma snd_make_cmp_row [simp]: "snd (make_cmp_row fmt name l ps) = []"
  by (simp add: make_cmp_row_def snd_seq fst_seq py_max_def np_getitem_def ret_def raise_exn_def
      split: list.splits sum.splits)

lemma successes_shown_compare_loop [simp]:
  "successes_shown (snd (compare_loop fmt t mo avail res)) = []"
proof (induction avail arbitrary: res)
  case Nil
  then show ?case by (simp add: ret_def)
next
  case (Cons a avail)
  obtain k n where a: "a = (k, n)" by (cases a)
  obtain r evs where mp: "make_prediction t k mo = (r, evs)" by (cases "make_prediction t k mo")
  have evs: "successes_shown evs = []"
    using successes_shown_make_prediction [of t k mo] by (simp add: mp)
  show ?case
    by (simp add: a mp evs snd_seq fst_seq Cons.IH ret_def split: sum.splits)
qed

lemma split_on_length: "c \<in> set s \<Longrightarrow> 2 \<le> length (split_on c s)"
proof (induction s)
  case Nil
  then show ?case by simp
next
  case (Cons x s)
  have ne: "split_on c s \<noteq> []" by (cases s) (auto split: list.splits)
  show ?case
  proof (cases "x = c")
    case True
    with ne show ?thesis by (cases "split_on c s") simp_all
  next
    case False
    with Cons show ?thesis by (auto split: list.splits)
  qed
qed

lemma py_getitem_1: "2 \<le> length xs \<Longrightarrow> py_getitem xs 1 = ret (xs ! 1)"
  by (simp add: py_getitem_def Let_def)

lemma py_getitem_0: "xs \<noteq> [] \<Longrightarrow> py_getitem xs 0 = ret (hd xs)"
  by (cases xs) (simp_all add: py_getitem_def Let_def)

lemma write_disagreement_ok:
  "\<exists>evs. write_disagreement rs = (Inr (), evs) \<and> successes_shown evs = []"
proof (induction rs)
  case Nil
  then show ?case by (simp add: ret_def)
next
  case (Cons r rs)
  then obtain evs where ih: "write_disagreement rs = (Inr (), evs)" "successes_shown evs = []"
    by blast
  show ?case
    by (cases "CHR '' '' \<in> set (cmp_Model r)")
       (simp_all add: ih py_getitem_1 split_on_length ret_def emit_def)
qed

lemma card_set_one:
  "card (set xs) = 1 \<longleftrightarrow> xs \<noteq> [] \<and> (\<forall>x\<in>set xs. \<forall>y\<in>set xs. x = y)"
proof
  assume "card (set xs) = 1"
  then obtain a where "set xs = {a}" by (auto simp: card_1_singleton_iff)
  then show "xs \<noteq> [] \<and> (\<forall>x\<in>set xs. \<forall>y\<in>set xs. x = y)" by auto
next
  assume a: "xs \<noteq> [] \<and> (\<forall>x\<in>set xs. \<forall>y\<in>set xs. x = y)"
  then have "set xs = {hd xs}" by (cases xs) auto
  then show "card (set xs) = 1" by simp
qed

lemma agreement_analysis_ok:
  "\<exists>evs. agreement_analysis rs = (Inr (), evs) \<and>
     successes_shown evs =
       (if card (set (map cmp_Prediction rs)) = 1
        then [check_sign @ '' All models agree: **'' @ cmp_Prediction (hd rs) @ '' Written**'']
        else [])"
proof (cases "card (set (map cmp_Prediction rs)) = 1")
  case True
  then have ne: "rs \<noteq> []" by (auto simp: card_set_one)
  then have "hd (map cmp_Prediction rs) = cmp_Prediction (hd rs)" by (simp add: hd_map)
  with True ne show ?thesis
    by (simp add: agreement_analysis_def Let_def py_getitem_0 emit_def ret_def)
next
  case False
  obtain evs where "write_disagreement rs = (Inr (), evs)" "successes_shown evs = []"
    using write_disagreement_ok by blast
  with False show ?thesis
    by (simp add: agreement_analysis_def Let_def emit_def)
qed

lemma compare_models_successes:
  assumes "fst (compare_models fmt t mo avail) = Inr results"
  shows "successes_shown (snd (compare_models fmt t mo avail)) =
       (if results \<noteq> [] \<and> card (set (map cmp_Prediction results)) = 1
        then [check_sign @ '' All models agree: **'' @ cmp_Prediction (hd results) @ '' Written**'']
        else [])"
proof -
  obtain r0 evs0 where cl: "compare_loop fmt t mo avail [] = (r0, evs0)"
    by (cases "compare_loop fmt t mo avail []")
  have s0: "successes_shown evs0 = []"
    using successes_shown_compare_loop [of fmt t mo avail "[]"] by (simp add: cl)
  obtain evs where aa: "agreement_analysis results = (Inr (), evs)"
    and sa: "successes_shown evs =
       (if card (set (map cmp_Prediction results)) = 1
        then [check_sign @ '' All models agree: **'' @ cmp_Prediction (hd results) @ '' Written**'']
        else [])"
    using agreement_analysis_ok by blast
  from assms cl have r0: "r0 = Inr results"
    by (cases r0) (auto simp: compare_models_def ret_def emit_def fst_seq split: if_splits sum.splits)
  show ?thesis
    by (simp add: compare_models_def cl r0 s0 aa sa ret_def emit_def)
qed

lemma compare_models_fst:
  assumes "compare_loop fmt t mo avail [] = (Inr rs, evs)"
  shows "fst (compare_models fmt t mo avail) = Inr rs"
proof -
  obtain evs' where "agreement_analysis rs = (Inr (), evs')"
    using agreement_analysis_ok by blast
  with assms show ?thesis
    by (simp add: compare_models_def ret_def emit_def)
qed

lemma make_cmp_row_ok:
  assumes "2 \<le> length ps"
  shows "\<exists>r. make_cmp_row fmt n l ps = (Inr r, []) \<and> cmp_Model r = n \<and> cmp_Prediction r = l"
proof -
  from assms obtain p0 p1 rest where "ps = p0 # p1 # rest"
    by (cases ps; cases "tl ps") auto
  then show ?thesis
    by (simp add: make_cmp_row_def py_max_def np_getitem_def ret_def)
qed

lemma compare_loop_rows:
  assumes "\<forall>c\<in>set available. answered t models c \<longrightarrow>
             2 \<le> length (the (snd (fst (make_prediction t (fst c) models))))"
  shows "\<exists>rows evs. compare_loop fmt t models available res = (Inr (res @ rows), evs)
           \<and> map cmp_Prediction rows = labels_returned t models available
           \<and> map cmp_Model rows = map snd (filter (answered t models) available)"
  using assms
proof (induction available arbitrary: res)
  case Nil
  then show ?case by (simp add: ret_def labels_returned_def)
next
  case (Cons c cs)
  obtain k n where c: "c = (k, n)" by (cases c)
  obtain r evs where mp: "make_prediction t k models = (r, evs)"
    by (cases "make_prediction t k models")
  from Cons.prems have H: "\<forall>c\<in>set cs. answered t models c \<longrightarrow>
             2 \<le> length (the (snd (fst (make_prediction t (fst c) models))))"
    by simp
  show ?case
  proof (cases "answered t models c")
    case True
    then have gr: "got_result r" using mp c by (simp add: answered_def)
    from Cons.prems True mp c have "2 \<le> length (the (snd r))" by simp
    then obtain row where row: "make_cmp_row fmt n (the (fst r)) (the (snd r)) = (Inr row, [])"
      and rm: "cmp_Model row = n" and rp: "cmp_Prediction row = the (fst r)"
      using make_cmp_row_ok by blast
    from Cons.IH [OF H, of "res @ [row]"] obtain rows evs'
      where ih: "compare_loop fmt t models cs (res @ [row]) = (Inr ((res @ [row]) @ rows), evs')"
        and lp: "map cmp_Prediction rows = labels_returned t models cs"
        and lm: "map cmp_Model rows = map snd (filter (answered t models) cs)"
      by blast
    have "compare_loop fmt t models (c # cs) res = (Inr (res @ row # rows), evs @ evs')"
      using gr mp row ih by (simp add: c ret_def)
    moreover have "map cmp_Prediction (row # rows) = labels_returned t models (c # cs)"
      using True lp rp mp c by (simp add: labels_returned_def)
    moreover have "map cmp_Model (row # rows) = map snd (filter (answered t models) (c # cs))"
      using True lm rm c by simp
    ultimately show ?thesis by blast
  next
    case False
    then have ngr: "\<not> got_result r" using mp c by (simp add: answered_def)
    from Cons.IH [OF H, of res] obtain rows evs'
      where ih: "compare_loop fmt t models cs res = (Inr (res @ rows), evs')"
        and lp: "map cmp_Prediction rows = labels_returned t models cs"
        and lm: "map cmp_Model rows = map snd (filter (answered t models) cs)"
      by blast
    have "compare_loop fmt t models (c # cs) res = (Inr (res @ rows), evs @ evs')"
      using ngr mp ih by (simp add: c ret_def)
    moreover have "map cmp_Prediction rows = labels_returned t models (c # cs)"
      using False lp by (simp add: labels_returned_def)
    moreover have "map cmp_Model rows = map snd (filter (answered t models) (c # cs))"
      using False lm by simp
    ultimately show ?thesis by blast
  qed
qed

lemma compare_models_rows:
  assumes "\<forall>c\<in>set available. answered t models c \<longrightarrow>
             2 \<le> length (the (snd (fst (make_prediction t (fst c) models))))"
  shows "\<exists>results. fst (compare_models fmt t models available) = Inr results
           \<and> map cmp_Prediction results = labels_returned t models available
           \<and> map cmp_Model results = map snd (filter (answered t models) available)"
proof -
  from compare_loop_rows [OF assms, of fmt "[]"] obtain rows evs
    where cl: "compare_loop fmt t models available [] = (Inr rows, evs)"
      and lp: "map cmp_Prediction rows = labels_returned t models available"
      and lm: "map cmp_Model rows = map snd (filter (answered t models) available)"
    by auto
  from compare_models_fst [OF cl] lp lm show ?thesis by blast
qed

lemma labels_all_ai:
  assumes "\<forall>c\<in>set available. \<exists>ps. fst (make_prediction t (fst c) models) = (Some ''AI'', Some ps)"
  shows "labels_returned t models available = map (\<lambda>c. ''AI'') available"
proof -
  have a: "\<And>c. c \<in> set available \<Longrightarrow> answered t models c"
    using assms by (auto simp: answered_def got_result_def)
  then have f: "filter (answered t models) available = available"
    by (simp add: filter_id_conv)
  have "\<And>c. c \<in> set available \<Longrightarrow> the (fst (fst (make_prediction t (fst c) models))) = ''AI''"
    using assms by fastforce
  then show ?thesis
    unfolding labels_returned_def f by (simp cong: map_cong)
qed


lemma agreement_shown:
  assumes ev: "fst (compare_models fmt t models available) = Inr results"
    and lab: "map cmp_Prediction results = labels"
  shows "successes_shown (snd (compare_models fmt t models available)) =
      (if labels \<noteq> [] \<and> (\<forall>l\<in>set labels. \<forall>l'\<in>set labels. l = l')
       then [check_sign @ '' All models agree: **'' @ hd labels @ '' Written**'']
       else [])"
proof -
  have len: "length results = length labels"
    unfolding lab [symmetric] by simp
  have ne: "results \<noteq> [] \<longleftrightarrow> labels \<noteq> []"
    using len by (cases results; cases labels) simp_all
  have hd_lab: "results \<noteq> [] \<Longrightarrow> cmp_Prediction (hd results) = hd labels"
    unfolding lab [symmetric] by (simp add: hd_map)
  have one: "card (set (map cmp_Prediction results)) = 1 \<longleftrightarrow>
      labels \<noteq> [] \<and> (\<forall>l\<in>set labels. \<forall>l'\<in>set labels. l = l')"
    unfolding lab by (rule card_set_one)
  note S = compare_models_successes [OF ev]
  show ?thesis
  proof (cases "labels \<noteq> [] \<and> (\<forall>l\<in>set labels. \<forall>l'\<in>set labels. l = l')")
    case True
    then have c: "card (set (map cmp_Prediction results)) = 1" using one by blast
    from True ne have r: "results \<noteq> []" by blast
    from r c have "successes_shown (snd (compare_models fmt t models available)) =
        [check_sign @ '' All models agree: **'' @ cmp_Prediction (hd results) @ '' Written**'']"
      by (simp only: S simp_thms if_True)
    then have eq: "successes_shown (snd (compare_models fmt t models available)) =
        [check_sign @ '' All models agree: **'' @ hd labels @ '' Written**'']"
      by (simp only: hd_lab [OF r])
    show ?thesis unfolding if_P [OF True] by (fact eq)
  next
    case False
    then have "\<not> (results \<noteq> [] \<and> card (set (map cmp_Prediction results)) = 1)"
      using one by blast
    then have eq: "successes_shown (snd (compare_models fmt t models available)) = []"
      by (simp only: S if_False)
    show ?thesis unfolding if_not_P [OF False] by (fact eq)
  qed
qed

text \<open>
  Claim C9, as the code has it. Provided every probability vector that a successful
  prediction returns has at least two entries, the comparison runs to its end and its rows
  are, in order, the available choices whose call of \<^verbatim>\<open>make_prediction\<close> yields a result,
  each row with the label that call returned. The message "All models agree" is shown if and
  only if at least one choice yields a result and all labels returned are the same; the
  message names that label. In particular, when there is an available choice and
  \<^verbatim>\<open>make_prediction\<close> returns the label AI for every available choice, the message
  "All models agree: AI Written" is shown.
\<close>

theorem compare_models_agreement:
  assumes "\<forall>c\<in>set available. answered text models c \<longrightarrow>
             2 \<le> length (the (snd (fst (make_prediction text (fst c) models))))"
  shows "(\<exists>results. fst (compare_models fmt text models available) = Inr results
            \<and> map cmp_Prediction results = labels_returned text models available
            \<and> map cmp_Model results = map snd (filter (answered text models) available))
       \<and> (successes_shown (snd (compare_models fmt text models available)) \<noteq> [] \<longleftrightarrow>
            labels_returned text models available \<noteq> [] \<and>
            (\<forall>l\<in>set (labels_returned text models available).
               \<forall>l'\<in>set (labels_returned text models available). l = l'))
       \<and> (successes_shown (snd (compare_models fmt text models available)) \<noteq> [] \<longrightarrow>
            successes_shown (snd (compare_models fmt text models available)) =
              [check_sign @ '' All models agree: **'' @
               hd (labels_returned text models available) @ '' Written**''])
       \<and> (available \<noteq> [] \<and>
            (\<forall>c\<in>set available. \<exists>ps.
               fst (make_prediction text (fst c) models) = (Some ''AI'', Some ps)) \<longrightarrow>
            successes_shown (snd (compare_models fmt text models available)) =
              [check_sign @ '' All models agree: **AI Written**''])"
proof -
  let ?labels = "labels_returned text models available"
  let ?shown = "successes_shown (snd (compare_models fmt text models available))"
  let ?same = "?labels \<noteq> [] \<and> (\<forall>l\<in>set ?labels. \<forall>l'\<in>set ?labels. l = l')"
  from compare_models_rows [OF assms, of fmt] obtain results
    where ev: "fst (compare_models fmt text models available) = Inr results"
      and lab: "map cmp_Prediction results = ?labels"
      and mods: "map cmp_Model results = map snd (filter (answered text models) available)"
    by blast
  have rows: "\<exists>results. fst (compare_models fmt text models available) = Inr results
            \<and> map cmp_Prediction results = ?labels
            \<and> map cmp_Model results = map snd (filter (answered text models) available)"
    using ev lab mods by blast
  note S = agreement_shown [OF ev lab]
  have yes: "?shown = [check_sign @ '' All models agree: **'' @ hd ?labels @ '' Written**'']"
    if s: ?same
    unfolding S if_P [OF s] by (rule refl)
  have no: "?shown = []" if s: "\<not> ?same"
    unfolding S if_not_P [OF s] by (rule refl)
  have A: "?shown \<noteq> [] \<longleftrightarrow> ?same"
  proof (cases ?same)
    case True
    have "?shown \<noteq> []" unfolding yes [OF True] by (rule list.distinct)
    with True show ?thesis by blast
  next
    case False
    from no [OF False] False show ?thesis by blast
  qed
  have B: "?shown \<noteq> [] \<longrightarrow> ?shown =
      [check_sign @ '' All models agree: **'' @ hd ?labels @ '' Written**'']"
    using A yes by blast
  have C: "available \<noteq> [] \<and>
            (\<forall>c\<in>set available. \<exists>ps.
               fst (make_prediction text (fst c) models) = (Some ''AI'', Some ps)) \<longrightarrow>
            ?shown = [check_sign @ '' All models agree: **AI Written**'']"
  proof
    assume a: "available \<noteq> [] \<and>
            (\<forall>c\<in>set available. \<exists>ps.
               fst (make_prediction text (fst c) models) = (Some ''AI'', Some ps))"
    then have l: "?labels = map (\<lambda>c. ''AI'') available"
      by (intro labels_all_ai) (rule conjunct2)
    from a have av: "available \<noteq> []" by (rule conjunct1)
    have n: "?labels \<noteq> []" unfolding l using av by simp
    have all: "\<forall>l\<in>set ?labels. l = ''AI''" unfolding l by simp
    have s: ?same
    proof (intro conjI ballI)
      show "?labels \<noteq> []" by (fact n)
    next
      fix x y assume "x \<in> set ?labels" "y \<in> set ?labels"
      with all have "x = ''AI''" "y = ''AI''" by blast+
      then show "x = y" by simp
    qed
    have h: "hd ?labels = ''AI''"
      unfolding l using av by (cases available) simp_all
    show "?shown = [check_sign @ '' All models agree: **AI Written**'']"
      unfolding yes [OF s] h by simp
  qed
  from rows A B C show ?thesis by (intro conjI)
qed

lemma all_ai_available:
  "get_available_models (Some (registry_of files_all_ai)) =
      [(''svm'', chart_sign @ '' SVM (Pipeline)''),
       (''decision_tree'', target_sign @ '' Decision Tree''),
       (''adaboost'', target_sign @ '' AdaBoost'')]"
  by (simp add: get_available_models_def registry_of_flags files_all_ai_def loaded_def)

lemma all_ai_svm:
  "make_prediction ''Great product!'' ''svm'' (Some (registry_of files_all_ai)) =
      ((Some ''AI'', Some [0.2, 0.8]), [ModelCall Pipeline Predict, ModelCall Pipeline PredictProba])"
  by (simp add: eval_defs seq_Inr_case del: seq_Inr)

lemma all_ai_dt:
  "make_prediction ''Great product!'' ''decision_tree'' (Some (registry_of files_all_ai)) =
      ((Some ''AI'', Some [0.4, 0.6]),
       [ModelCall Vectorizer Transform, ModelCall DecisionTreeClassifier Predict,
        ModelCall DecisionTreeClassifier PredictProba])"
  by (simp add: eval_defs seq_Inr_case del: seq_Inr)

lemma all_ai_ada:
  "make_prediction ''Great product!'' ''adaboost'' (Some (registry_of files_all_ai)) =
      ((Some ''AI'', Some [0.3, 0.7]),
       [ModelCall Vectorizer Transform, ModelCall AdaBoostClassifier Predict,
        ModelCall AdaBoostClassifier PredictProba])"
  by (simp add: eval_defs seq_Inr_case del: seq_Inr)

lemma compare_loop_all_ai:
  "compare_loop fmt_stub ''Great product!'' (Some (registry_of files_all_ai))
     (get_available_models (Some (registry_of files_all_ai))) [] =
   (Inr [\<lparr>cmp_Model = chart_sign @ '' SVM (Pipeline)'', cmp_Prediction = ''AI'',
           cmp_Confidence = ''high'', cmp_Human = ''low'', cmp_AI = ''high'',
           cmp_Raw_Probs = [0.2, 0.8]\<rparr>,
          \<lparr>cmp_Model = target_sign @ '' Decision Tree'', cmp_Prediction = ''AI'',
           cmp_Confidence = ''high'', cmp_Human = ''low'', cmp_AI = ''high'',
           cmp_Raw_Probs = [0.4, 0.6]\<rparr>,
          \<lparr>cmp_Model = target_sign @ '' AdaBoost'', cmp_Prediction = ''AI'',
           cmp_Confidence = ''high'', cmp_Human = ''low'', cmp_AI = ''high'',
           cmp_Raw_Probs = [0.3, 0.7]\<rparr>],
    [ModelCall Pipeline Predict, ModelCall Pipeline PredictProba,
     ModelCall Vectorizer Transform, ModelCall DecisionTreeClassifier Predict,
     ModelCall DecisionTreeClassifier PredictProba,
     ModelCall Vectorizer Transform, ModelCall AdaBoostClassifier Predict,
     ModelCall AdaBoostClassifier PredictProba])"
  unfolding all_ai_available
  by (simp add: all_ai_svm all_ai_dt all_ai_ada got_result_def make_cmp_row_pair fmt_stub_def
        ret_def seq_Inr_case del: seq_Inr)

theorem compare_models_agreement_witness:
  "fst (compare_models fmt_stub ''Great product!'' (Some (registry_of files_all_ai))
         (get_available_models (Some (registry_of files_all_ai)))) =
     Inr [\<lparr>cmp_Model = chart_sign @ '' SVM (Pipeline)'', cmp_Prediction = ''AI'',
           cmp_Confidence = ''high'', cmp_Human = ''low'', cmp_AI = ''high'',
           cmp_Raw_Probs = [0.2, 0.8]\<rparr>,
          \<lparr>cmp_Model = target_sign @ '' Decision Tree'', cmp_Prediction = ''AI'',
           cmp_Confidence = ''high'', cmp_Human = ''low'', cmp_AI = ''high'',
           cmp_Raw_Probs = [0.4, 0.6]\<rparr>,
          \<lparr>cmp_Model = target_sign @ '' AdaBoost'', cmp_Prediction = ''AI'',
           cmp_Confidence = ''high'', cmp_Human = ''low'', cmp_AI = ''high'',
           cmp_Raw_Probs = [0.3, 0.7]\<rparr>]
   \<and> labels_returned ''Great product!'' (Some (registry_of files_all_ai))
         (get_available_models (Some (registry_of files_all_ai))) = [''AI'', ''AI'', ''AI'']
   \<and> successes_shown (snd (compare_models fmt_stub ''Great product!''
         (Some (registry_of files_all_ai))
         (get_available_models (Some (registry_of files_all_ai))))) =
       [check_sign @ '' All models agree: **AI Written**'']"
proof -
  let ?R = "Some (registry_of files_all_ai)"
  let ?av = "get_available_models ?R"
  have H: "\<forall>c\<in>set ?av. answered ''Great product!'' ?R c \<longrightarrow>
      2 \<le> length (the (snd (fst (make_prediction ''Great product!'' (fst c) ?R))))"
    unfolding all_ai_available by (simp add: all_ai_svm all_ai_dt all_ai_ada)
  have ai: "?av \<noteq> [] \<and> (\<forall>c\<in>set ?av. \<exists>ps.
      fst (make_prediction ''Great product!'' (fst c) ?R) = (Some ''AI'', Some ps))"
    unfolding all_ai_available by (simp add: all_ai_svm all_ai_dt all_ai_ada)
  have labs: "labels_returned ''Great product!'' ?R ?av = [''AI'', ''AI'', ''AI'']"
    unfolding all_ai_available
    by (simp add: labels_returned_def answered_def got_result_def all_ai_svm all_ai_dt all_ai_ada)
  note rows = compare_models_fst [OF compare_loop_all_ai]
  from compare_models_agreement [OF H, of fmt_stub]
  have "?av \<noteq> [] \<and> (\<forall>c\<in>set ?av. \<exists>ps.
      fst (make_prediction ''Great product!'' (fst c) ?R) = (Some ''AI'', Some ps)) \<longrightarrow>
     successes_shown (snd (compare_models fmt_stub ''Great product!'' ?R ?av)) =
       [check_sign @ '' All models agree: **AI Written**'']"
    by (rule conjunct2 [THEN conjunct2, THEN conjunct2])
  from mp [OF this ai] have shown:
    "successes_shown (snd (compare_models fmt_stub ''Great product!'' ?R ?av)) =
       [check_sign @ '' All models agree: **AI Written**'']" .
  from rows labs shown show ?thesis by (intro conjI)
qed

text \<open>
  With two available models that both raise, no model produces a result: every model that
  produced a result returned the same label, vacuously, yet the page shows
  "Failed to get predictions from models" and no agreement.
\<close>

theorem no_result_no_agreement_counterexample:
  "map fst (get_available_models (Some (registry_of files_failing_svm_dt))) =
     [''svm'', ''decision_tree'']
   \<and> fst (compare_models fmt_stub ''Great product!'' (Some (registry_of files_failing_svm_dt))
         (get_available_models (Some (registry_of files_failing_svm_dt)))) = Inr []
   \<and> successes_shown (snd (compare_models fmt_stub ''Great product!''
         (Some (registry_of files_failing_svm_dt))
         (get_available_models (Some (registry_of files_failing_svm_dt))))) = []
   \<and> last (snd (compare_models fmt_stub ''Great product!''
         (Some (registry_of files_failing_svm_dt))
         (get_available_models (Some (registry_of files_failing_svm_dt))))) =
       StError ''Failed to get predictions from models''"
proof -
  have av: "get_available_models (Some (registry_of files_failing_svm_dt)) =
      [(''svm'', chart_sign @ '' SVM (Individual)''),
       (''decision_tree'', target_sign @ '' Decision Tree'')]"
    by (simp add: get_available_models_def registry_of_flags files_failing_svm_dt_def loaded_def)
  have svm: "fst (make_prediction ''Great product!'' ''svm''
                (Some (registry_of files_failing_svm_dt))) = (None, None)"
    by (simp add: eval_defs seq_Inr_case del: seq_Inr)
  have dt: "fst (make_prediction ''Great product!'' ''decision_tree''
                (Some (registry_of files_failing_svm_dt))) = (None, None)"
    by (simp add: eval_defs seq_Inr_case del: seq_Inr)
  have "fst (compare_loop fmt_stub ''Great product!'' (Some (registry_of files_failing_svm_dt))
          (get_available_models (Some (registry_of files_failing_svm_dt))) []) = Inr []"
    unfolding av
    by (simp add: fst_seq case_prod_beta svm dt got_result_def ret_def)
  then obtain evs where cl: "compare_loop fmt_stub ''Great product!''
          (Some (registry_of files_failing_svm_dt))
          (get_available_models (Some (registry_of files_failing_svm_dt))) [] = (Inr [], evs)"
    by (metis prod.collapse)
  have s: "successes_shown evs = []"
    using successes_shown_compare_loop [of fmt_stub "''Great product!''"
        "Some (registry_of files_failing_svm_dt)"
        "get_available_models (Some (registry_of files_failing_svm_dt))" "[]"]
    by (simp add: cl)
  have cm: "compare_models fmt_stub ''Great product!'' (Some (registry_of files_failing_svm_dt))
         (get_available_models (Some (registry_of files_failing_svm_dt))) =
       (Inr [], evs @ [StError ''Failed to get predictions from models''])"
    by (simp add: compare_models_def cl emit_def ret_def)
  show ?thesis
    by (simp add: cm s) (simp add: av)
qed

end
